theory Spec2Isabelle
  imports Complex_Main
begin

section \<open>Strings of the host language\<close>

text \<open>
  Header values and tokens are strings of 8-bit characters (Node decodes header bytes as
  Latin-1).  The functions below are the \<^verbatim>\<open>String.prototype\<close> methods the source calls,
  restricted to the arguments it passes.
\<close>

text \<open>\<^verbatim>\<open>s.startsWith(p)\<close>\<close>

definition startsWith :: "string \<Rightarrow> string \<Rightarrow> bool" where
  "startsWith s p = (take (length p) s = p)"

text \<open>\<^verbatim>\<open>s.slice(n)\<close> for \<open>0 \<le> n\<close>\<close>

definition slice_from :: "string \<Rightarrow> nat \<Rightarrow> string" where
  "slice_from s n = drop n s"

text \<open>\<^verbatim>\<open>s.split(sep)\<close> for a separator of one character: never the empty array.\<close>

fun split_on :: "'a \<Rightarrow> 'a list \<Rightarrow> 'a list list" where
  "split_on sep [] = [[]]"
| "split_on sep (c # cs) =
     (if c = sep then [] # split_on sep cs
      else (case split_on sep cs of
              [] \<Rightarrow> [[c]]
            | seg # segs \<Rightarrow> (c # seg) # segs))"

text \<open>\<^verbatim>\<open>xs.join(sep)\<close>\<close>

fun join_with :: "string \<Rightarrow> string list \<Rightarrow> string" where
  "join_with sep [] = []"
| "join_with sep [x] = x"
| "join_with sep (x # y # ys) = x @ sep @ join_with sep (y # ys)"

text \<open>\<^verbatim>\<open>s.replace(pat, rep)\<close> with a string pattern: the first occurrence only.\<close>

fun replace_first :: "string \<Rightarrow> string \<Rightarrow> string \<Rightarrow> string" where
  "replace_first pat rep [] = (if pat = [] then rep else [])"
| "replace_first pat rep (c # cs) =
     (if startsWith (c # cs) pat then rep @ drop (length pat) (c # cs)
      else c # replace_first pat rep cs)"

text \<open>
  \<^verbatim>\<open>s.trim()\<close>: the white space and line terminators of ECMAScript that fit in 8 bits
  (TAB, LF, VT, FF, CR, SP, NBSP).
\<close>

definition is_space :: "char \<Rightarrow> bool" where
  "is_space c = (c \<in> {CHR 0x09, CHR 0x0A, CHR 0x0B, CHR 0x0C, CHR 0x0D, CHR 0x20, CHR 0xA0})"

definition trim :: "string \<Rightarrow> string" where
  "trim s = rev (dropWhile is_space (rev (dropWhile is_space s)))"

section \<open>The federated verifier (bsky auth)\<close>

text \<open>
  The names given to \<^verbatim>\<open>AuthRequiredError\<close> by the verifier.  Anything else that leaves
  the verifier is an exception of a collaborator that the verifier does not catch
  (\<open>Thrown\<close>).
\<close>

datatype auth_error = MissingJwt | BadJwt | JwtExpired | BadJwtSignature | BadJwtSig

datatype 'x failure = AuthRequiredError auth_error | Thrown 'x

text \<open>
  \<^verbatim>\<open>type JwtPayload = { iss: string; exp: number }\<close>.  The cast of the parsed JSON is
  unchecked; \<open>exp_claim\<close> is the number the comparison \<^verbatim>\<open>Date.now() / 1000 > payload.exp\<close>
  sees, \<open>None\<close> when that is \<^verbatim>\<open>NaN\<close> (a missing or non-numeric \<^verbatim>\<open>exp\<close>).
  A number is the rational that the double stands for.
\<close>

record jwt_payload =
  iss :: string
  exp_claim :: "rat option"

record atp_data =
  signingKey :: string

text \<open>
  The collaborators of the verifier, each returning \<open>Inl x\<close> when it throws \<open>x\<close>:
  \<^verbatim>\<open>JSON.parse\<close> with the property reads of the payload, \<^verbatim>\<open>ui8.fromString(_, 'base64url')\<close>,
  \<^verbatim>\<open>didResolver.resolveAtpData\<close> and \<^verbatim>\<open>crypto.verifySignature\<close>.
\<close>

record 'x collaborators =
  json_parse :: "string \<Rightarrow> 'x + jwt_payload"
  from_base64url :: "string \<Rightarrow> 'x + string"
  resolveAtpData :: "string \<Rightarrow> 'x + atp_data"
  verifySignature :: "string \<Rightarrow> string \<Rightarrow> string \<Rightarrow> 'x + bool"

text \<open>\<^verbatim>\<open>req.headers.authorization\<close> is a string or undefined.\<close>

record request =
  authorization :: "string option"

text \<open>
  \<^verbatim>\<open>parseB64UrlToJson\<close>: \<^verbatim>\<open>ui8.toString(ui8.fromString(b64, 'utf8'))\<close> encodes to UTF-8 and
  decodes from UTF-8 again, so the segment is parsed as it stands.
\<close>

definition parseB64UrlToJson :: "'x collaborators \<Rightarrow> string \<Rightarrow> 'x + jwt_payload" where
  "parseB64UrlToJson c b64 = json_parse c b64"

text \<open>
  The quotient \<^verbatim>\<open>a / b\<close> of two numbers that are integers, \<open>b\<close> positive, as the
  arithmetic of doubles computes it: the exact quotient rounded to the nearest double,
  a tie going to the even significand.  \<open>ilog2 n\<close> is the position of the leading bit
  of \<open>n\<close>, \<open>binade p b\<close> the binary exponent of \<open>p / b\<close>, and doubles of that exponent
  are \<open>2\<^sup>e\<^sup>-\<^sup>5\<^sup>2\<close> apart.  The operands the source divides, a clock reading and 1000,
  are exact doubles and their quotient is far from overflow and from the subnormal
  range, which are left out.
\<close>

definition round_half_even :: "rat \<Rightarrow> int" where
  "round_half_even y =
     (let f = \<lfloor>y\<rfloor>; r = y - of_int f in
      if r < 1 / 2 then f
      else if 1 / 2 < r then f + 1
      else if even f then f else f + 1)"

function ilog2 :: "int \<Rightarrow> int" where
  "ilog2 n = (if n \<le> 1 then 0 else 1 + ilog2 (n div 2))"
  by pat_completeness auto
termination
  by (relation "measure nat") auto

declare ilog2.simps [simp del]

definition binade :: "int \<Rightarrow> int \<Rightarrow> int" where
  "binade p b =
     (let e0 = ilog2 p - ilog2 b
      in if power_int 2 e0 \<le> (of_int p / of_int b :: rat) then e0 else e0 - 1)"

definition nearest_double :: "int \<Rightarrow> int \<Rightarrow> rat" where
  "nearest_double p b =
     (let x = of_int p / of_int b;
          ulp = power_int 2 (binade p b - 52);
          m = round_half_even (x / ulp)
      in of_int m * ulp)"

definition double_quotient :: "int \<Rightarrow> int \<Rightarrow> rat" where
  "double_quotient a b =
     (if a = 0 then 0 else of_int (sgn a) * nearest_double \<bar>a\<bar> b)"

text \<open>\<^verbatim>\<open>Date.now() / 1000 > payload.exp\<close>, with \<open>now\<close> in milliseconds.\<close>

definition now_after :: "int \<Rightarrow> rat option \<Rightarrow> bool" where
  "now_after now e = (case e of None \<Rightarrow> False | Some t \<Rightarrow> double_quotient now 1000 > t)"

definition getJwtStrFromReq :: "request \<Rightarrow> string option" where
  "getJwtStrFromReq req =
     (let auth = (case authorization req of None \<Rightarrow> [] | Some a \<Rightarrow> a)
      in if \<not> startsWith auth ''Bearer '' then None
         else Some (trim (replace_first ''Bearer '' [] auth)))"

definition verifyJwt :: "'x collaborators \<Rightarrow> int \<Rightarrow> string \<Rightarrow> 'x failure + string" where
  "verifyJwt c now jwtStr =
     (let parts = split_on CHR ''.'' jwtStr in
      if length parts \<noteq> 3 then Inl (AuthRequiredError BadJwt)
      else
        case parseB64UrlToJson c (parts ! 1) of
          Inl x \<Rightarrow> Inl (Thrown x)
        | Inr payload \<Rightarrow>
            let sig = parts ! 2 in
            if now_after now (exp_claim payload) then Inl (AuthRequiredError JwtExpired)
            else
              let msgBytes = join_with ''.'' (take 2 parts) in
              case from_base64url c sig of
                Inl x \<Rightarrow> Inl (Thrown x)
              | Inr sigBytes \<Rightarrow>
                  (case resolveAtpData c (iss payload) of
                     Inl x \<Rightarrow> Inl (Thrown x)
                   | Inr atpData \<Rightarrow>
                       (case verifySignature c (signingKey atpData) msgBytes sigBytes of
                          Inl x \<Rightarrow> Inl (AuthRequiredError BadJwtSignature)
                        | Inr validSig \<Rightarrow>
                            if \<not> validSig then Inl (AuthRequiredError BadJwtSig)
                            else Inr (iss payload))))"

text \<open>
  \<^verbatim>\<open>authVerifier\<close> returns \<^verbatim>\<open>{ credentials: { did } }\<close>; \<^verbatim>\<open>!jwtStr\<close> holds for
  \<^verbatim>\<open>null\<close> and for the empty string.
\<close>

definition authVerifier :: "'x collaborators \<Rightarrow> int \<Rightarrow> request \<Rightarrow> 'x failure + string" where
  "authVerifier c now req =
     (case getJwtStrFromReq req of
        None \<Rightarrow> Inl (AuthRequiredError MissingJwt)
      | Some jwtStr \<Rightarrow>
          if jwtStr = [] then Inl (AuthRequiredError MissingJwt)
          else verifyJwt c now jwtStr)"

text \<open>
  \<^verbatim>\<open>authOptionalVerifier\<close>: \<^verbatim>\<open>!reqCtx.req.headers.authorization\<close> holds for undefined
  and for the empty string; \<^verbatim>\<open>did: null\<close> is \<open>None\<close>.
\<close>

definition authOptionalVerifier ::
    "'x collaborators \<Rightarrow> int \<Rightarrow> request \<Rightarrow> 'x failure + string option" where
  "authOptionalVerifier c now req =
     (if authorization req = None \<or> authorization req = Some [] then Inr None
      else map_sum id Some (authVerifier c now req))"

text \<open>
  The failures of the taxonomy are the named \<^verbatim>\<open>AuthRequiredError\<close>s; an exception that
  passes through the verifier is not one of them.
\<close>

fun typed_failure :: "'x failure \<Rightarrow> bool" where
  "typed_failure (AuthRequiredError k) = True"
| "typed_failure (Thrown x) = False"

section \<open>Local session tokens and service tokens (pds auth)\<close>

text \<open>
  \<^verbatim>\<open>enum AuthScope\<close> with the string each member stands for at run time.
\<close>

datatype AuthScope = Access | Refresh | AppPass

fun scope_value :: "AuthScope \<Rightarrow> string" where
  "scope_value Access = ''com.atproto.access''"
| "scope_value Refresh = ''com.atproto.refresh''"
| "scope_value AppPass = ''com.atproto.appPass''"

text \<open>
  The object \<^verbatim>\<open>jwt.verify\<close> returns, as far as the source reads it: \<^verbatim>\<open>payload.scope\<close>
  and \<^verbatim>\<open>payload.sub\<close> (\<open>None\<close> when the property is not a string) and whether the object
  has a key \<^verbatim>\<open>signature\<close>.
\<close>

record token_payload =
  scope :: "string option"
  sub :: "string option"
  has_signature :: bool

text \<open>
  What a call of \<^verbatim>\<open>jwt.verify(token, secret, options)\<close> does: it throws
  \<^verbatim>\<open>TokenExpiredError\<close>, throws another error, returns a string or returns an object.
\<close>

datatype verify_result =
    ThrowsTokenExpiredError
  | ThrowsOther
  | ReturnsString string
  | ReturnsObject token_payload

text \<open>The error names of \<^verbatim>\<open>InvalidRequestError\<close> raised by \<^verbatim>\<open>ServerAuth\<close>.\<close>

datatype token_error = InvalidToken | ExpiredToken

record ServerAuth =
  secret :: string
  adminPass :: string

definition BEARER :: string where
  "BEARER = ''Bearer ''"

definition BASIC :: string where
  "BASIC = ''Basic ''"

text \<open>\<^verbatim>\<open>req.headers.authorization || ''\<close>\<close>

definition header_or_empty :: "request \<Rightarrow> string" where
  "header_or_empty req = (case authorization req of None \<Rightarrow> [] | Some a \<Rightarrow> a)"

definition getToken :: "request \<Rightarrow> string option" where
  "getToken req =
     (let header = header_or_empty req
      in if \<not> startsWith header BEARER then None
         else Some (slice_from header (length BEARER)))"

text \<open>
  The body of the \<^verbatim>\<open>try\<close> block of \<^verbatim>\<open>verifyToken\<close>: what it throws (\<open>Inl\<close>) or returns.
\<close>

datatype caught = TokenExpired | VerifyFailed | MalformedToken | BadTokenScope

definition verifyToken_try ::
    "(string \<Rightarrow> string \<Rightarrow> 'o option \<Rightarrow> verify_result) \<Rightarrow> ServerAuth \<Rightarrow> string
      \<Rightarrow> AuthScope list \<Rightarrow> 'o option \<Rightarrow> caught + token_payload" where
  "verifyToken_try jwt_verify auth token scopes options =
     (case jwt_verify token (secret auth) options of
        ThrowsTokenExpiredError \<Rightarrow> Inl TokenExpired
      | ThrowsOther \<Rightarrow> Inl VerifyFailed
      | ReturnsString s \<Rightarrow> Inl MalformedToken
      | ReturnsObject payload \<Rightarrow>
          if has_signature payload then Inl MalformedToken
          else if length scopes > 0 \<and> scope payload \<notin> set (map (\<lambda>s. Some (scope_value s)) scopes)
          then Inl BadTokenScope
          else Inr payload)"

text \<open>
  \<^verbatim>\<open>verifyToken\<close>: the \<^verbatim>\<open>catch\<close> block turns \<^verbatim>\<open>TokenExpiredError\<close> into
  \<^verbatim>\<open>ExpiredToken\<close> and every other error into \<^verbatim>\<open>InvalidToken\<close>.
\<close>

definition verifyToken ::
    "(string \<Rightarrow> string \<Rightarrow> 'o option \<Rightarrow> verify_result) \<Rightarrow> ServerAuth \<Rightarrow> string
      \<Rightarrow> AuthScope list \<Rightarrow> 'o option \<Rightarrow> token_error + token_payload" where
  "verifyToken jwt_verify auth token scopes options =
     (case verifyToken_try jwt_verify auth token scopes options of
        Inl err \<Rightarrow> (if err = TokenExpired then Inl ExpiredToken else Inl InvalidToken)
      | Inr payload \<Rightarrow> Inr payload)"

text \<open>
  \<^verbatim>\<open>getCredentials\<close> returns \<^verbatim>\<open>null\<close> (\<open>Inr None\<close>) or \<^verbatim>\<open>{ did, scope }\<close>; \<^verbatim>\<open>!token\<close>
  holds for \<^verbatim>\<open>null\<close> and for the empty string.  The allow-list is always passed here;
  a caller that omits it gets \<open>[Access]\<close>.  \<^verbatim>\<open>verifyToken\<close> is called without options.
\<close>

definition getCredentials ::
    "(string \<Rightarrow> string \<Rightarrow> 'o option \<Rightarrow> verify_result) \<Rightarrow> ServerAuth \<Rightarrow> request
      \<Rightarrow> AuthScope list \<Rightarrow> token_error + (string \<times> string option) option" where
  "getCredentials jwt_verify auth req scopes =
     (case getToken req of
        None \<Rightarrow> Inr None
      | Some token \<Rightarrow>
          if token = [] then Inr None
          else
            case verifyToken jwt_verify auth token scopes None of
              Inl err \<Rightarrow> Inl err
            | Inr payload \<Rightarrow>
                (case sub payload of
                   None \<Rightarrow> Inl InvalidToken
                 | Some s \<Rightarrow>
                     if \<not> startsWith s ''did:'' then Inl InvalidToken
                     else Inr (Some (s, scope payload))))"

record basic_auth =
  username :: string
  password :: string

text \<open>
  \<^verbatim>\<open>parseBasicAuth\<close>.  \<open>decode\<close> stands for
  \<^verbatim>\<open>ui8.toString(ui8.fromString(b64, 'base64pad'), 'utf8')\<close>, \<open>None\<close> when it throws; the
  destructuring \<^verbatim>\<open>[username, password] = parsed\<close> reads the first two segments, the second
  one undefined when there is only one.
\<close>

definition parseBasicAuth :: "(string \<Rightarrow> string option) \<Rightarrow> string \<Rightarrow> basic_auth option" where
  "parseBasicAuth decode token =
     (if \<not> startsWith token BASIC then None
      else
        let b64 = slice_from token (length BASIC) in
        case decode b64 of
          None \<Rightarrow> None
        | Some text \<Rightarrow>
            (case split_on CHR '':'' text of
               u # p # rest \<Rightarrow>
                 if u = [] \<or> p = [] then None
                 else Some \<lparr>username = u, password = p\<rparr>
             | _ \<Rightarrow> None))"

definition verifyAdmin :: "(string \<Rightarrow> string option) \<Rightarrow> ServerAuth \<Rightarrow> request \<Rightarrow> bool" where
  "verifyAdmin decode auth req =
     (case parseBasicAuth decode (header_or_empty req) of
        None \<Rightarrow> False
      | Some parsed \<Rightarrow>
          if username parsed \<noteq> ''admin'' then False
          else if password parsed \<noteq> adminPass auth then False
          else True)"

subsection \<open>Service tokens\<close>

text \<open>
  The objects passed to \<^verbatim>\<open>JSON.stringify\<close> have string and integer members only.
  Strings are quoted with the escapes of ECMAScript's \<^verbatim>\<open>QuoteJSONString\<close>; integers are
  printed in decimal, as ECMAScript prints them below \<open>10\<^sup>2\<^sup>1\<close> in absolute value.
\<close>

datatype jvalue = JString string | JNumber int

definition hex_digit :: "int \<Rightarrow> char" where
  "hex_digit d = (if d < 10 then char_of (48 + d) else char_of (87 + d))"

definition json_escape :: "char \<Rightarrow> string" where
  "json_escape c =
     (let n = (of_char c :: int) in
      if n = 8 then [CHR 0x5C, CHR ''b'']
      else if n = 9 then [CHR 0x5C, CHR ''t'']
      else if n = 10 then [CHR 0x5C, CHR ''n'']
      else if n = 12 then [CHR 0x5C, CHR ''f'']
      else if n = 13 then [CHR 0x5C, CHR ''r'']
      else if n = 34 then [CHR 0x5C, CHR 0x22]
      else if n = 92 then [CHR 0x5C, CHR 0x5C]
      else if n < 32 then [CHR 0x5C, CHR ''u'', CHR ''0'', CHR ''0'', hex_digit (n div 16), hex_digit (n mod 16)]
      else [c])"

definition json_quote :: "string \<Rightarrow> string" where
  "json_quote s = CHR 0x22 # concat (map json_escape s) @ [CHR 0x22]"

function show_digits :: "int \<Rightarrow> string" where
  "show_digits n =
     (if n < 10 then [char_of (48 + n)]
      else show_digits (n div 10) @ [char_of (48 + n mod 10)])"
  by pat_completeness auto
termination
  by (relation "measure nat") auto

declare show_digits.simps [simp del]

definition show_int :: "int \<Rightarrow> string" where
  "show_int n = (if n < 0 then CHR ''-'' # show_digits (- n) else show_digits n)"

fun stringify_value :: "jvalue \<Rightarrow> string" where
  "stringify_value (JString s) = json_quote s"
| "stringify_value (JNumber n) = show_int n"

definition JSON_stringify :: "(string \<times> jvalue) list \<Rightarrow> string" where
  "JSON_stringify members =
     ''{'' @ join_with '','' (map (\<lambda>(k, v). json_quote k @ '':'' @ stringify_value v) members) @ ''}''"

text \<open>
  \<^verbatim>\<open>jsonToB64Url\<close>: \<^verbatim>\<open>ui8.toString\<close> is called without an encoding, which is UTF-8, so
  the JSON text comes back as it went in.
\<close>

definition jsonToB64Url :: "(string \<times> jvalue) list \<Rightarrow> string" where
  "jsonToB64Url json = JSON_stringify json"

record keypair =
  jwtAlg :: string
  sign :: "string \<Rightarrow> string"

text \<open>
  Modelled from the spec: the constant \<^verbatim>\<open>MINUTE\<close> of \<^verbatim>\<open>@atproto/common\<close> is not among the
  sources; the expiry of a service token is the time of issue plus 60 s, and the clock
  counts milliseconds.
\<close>

definition MINUTE :: int where
  "MINUTE = 60000"

text \<open>
  \<^verbatim>\<open>createServiceJwt\<close>, with \<open>to_base64url\<close> for \<^verbatim>\<open>ui8.toString(_, 'base64url')\<close> and \<open>now\<close>
  for \<^verbatim>\<open>Date.now()\<close>.
\<close>

definition createServiceJwt ::
    "(string \<Rightarrow> string) \<Rightarrow> int \<Rightarrow> string \<Rightarrow> keypair \<Rightarrow> string" where
  "createServiceJwt to_base64url now accountDid kp =
     (let header = [(''typ'', JString ''JWT''), (''alg'', JString (jwtAlg kp))];
          exp = (now + MINUTE) div 1000;
          payload = [(''iss'', JString accountDid), (''exp'', JNumber exp)];
          toSignStr = jsonToB64Url header @ ''.'' @ jsonToB64Url payload;
          sig = sign kp toSignStr
      in toSignStr @ ''.'' @ to_base64url sig)"

section \<open>The cache of identity documents (bsky did-cache)\<close>

text \<open>
  The table \<^verbatim>\<open>did_cache\<close> is a list of rows; \<^verbatim>\<open>onConflict((oc) => oc.column('did'))\<close>
  presupposes a unique index on \<^verbatim>\<open>did\<close>.  Times are milliseconds.
\<close>

record 'd did_cache_row =
  did :: string
  doc :: 'd
  updatedAt :: int

text \<open>
  \<^verbatim>\<open>cacheDid\<close> reads the clock twice: \<open>t_values\<close> for the row to insert and \<open>t_conflict\<close>
  for the update made when a row of that \<^verbatim>\<open>did\<close> exists.
\<close>

definition cacheDid ::
    "string \<Rightarrow> 'd \<Rightarrow> int \<Rightarrow> int \<Rightarrow> 'd did_cache_row list \<Rightarrow> 'd did_cache_row list" where
  "cacheDid d dc t_values t_conflict table =
     (if d \<in> set (map did table)
      then map (\<lambda>r. if did r = d then r\<lparr>doc := dc, updatedAt := t_conflict\<rparr> else r) table
      else table @ [\<lparr>did = d, doc = dc, updatedAt = t_values\<rparr>])"

text \<open>
  \<^verbatim>\<open>new Date(x).getTime()\<close>: the time value itself within the range of \<^verbatim>\<open>Date\<close>,
  \<^verbatim>\<open>NaN\<close> (\<open>None\<close>) outside.
\<close>

definition getTime :: "int \<Rightarrow> int option" where
  "getTime x = (if \<bar>x\<bar> \<le> 8640000000000000 then Some x else None)"

text \<open>\<^verbatim>\<open>CacheResult\<close>; a comparison with \<^verbatim>\<open>NaN\<close> is false.\<close>

record 'd CacheResult =
  res_doc :: 'd
  res_updatedAt :: "int option"
  res_did :: string
  expired :: bool

definition checkCache :: "int \<Rightarrow> int \<Rightarrow> string \<Rightarrow> 'd did_cache_row list \<Rightarrow> 'd CacheResult option" where
  "checkCache ttl now d table =
     (case find (\<lambda>r. did r = d) table of
        None \<Rightarrow> None
      | Some res \<Rightarrow>
          let updated = getTime (updatedAt res);
              expd = (case updated of None \<Rightarrow> False | Some u \<Rightarrow> now > u + ttl)
          in Some \<lparr>res_doc = doc res, res_updatedAt = updated, res_did = d, expired = expd\<rparr>)"

definition clear :: "'d did_cache_row list \<Rightarrow> 'd did_cache_row list" where
  "clear table = []"

section \<open>Fixtures\<close>

text \<open>
  A resolver that knows two identities and fails on every other one, a signature
  decoder that throws on an asterisk, a signature check that accepts one signature for
  the key of the first identity and throws on any other key, and tokens expiring at
  second 1700000000: one of the first identity, one of the second (whose key is
  malformed), one of an identity that does not resolve, one of the first identity with
  another signature, one whose signature does not decode and one whose payload is not
  JSON.
\<close>

definition alice_payload :: string where
  \<open>alice_payload = ''{"iss":"did:example:alice","exp":1700000000}''\<close>

definition alice_token :: string where
  \<open>alice_token = ''{"typ":"JWT","alg":"ES256K"}.'' @ alice_payload @ ''.c2ln''\<close>

definition mallory_payload :: string where
  \<open>mallory_payload = ''{"iss":"did:example:mallory","exp":1700000000}''\<close>

definition mallory_token :: string where
  \<open>mallory_token = ''{"typ":"JWT","alg":"ES256K"}.'' @ mallory_payload @ ''.c2ln''\<close>

definition bob_payload :: string where
  \<open>bob_payload = ''{"iss":"did:example:bob","exp":1700000000}''\<close>

definition bob_token :: string where
  \<open>bob_token = ''{"typ":"JWT","alg":"ES256K"}.'' @ bob_payload @ ''.c2ln''\<close>

definition forged_token :: string where
  \<open>forged_token = ''{"typ":"JWT","alg":"ES256K"}.'' @ alice_payload @ ''.AAAA''\<close>

definition undecodable_token :: string where
  \<open>undecodable_token = ''{"typ":"JWT","alg":"ES256K"}.'' @ alice_payload @ ''.c2*n''\<close>

definition unparsable_token :: string where
  "unparsable_token = ''a.b.c''"

definition fixture :: "string collaborators" where
  "fixture =
     \<lparr>json_parse = (\<lambda>s.
        if s = alice_payload
        then Inr \<lparr>iss = ''did:example:alice'', exp_claim = Some 1700000000\<rparr>
        else if s = mallory_payload
        then Inr \<lparr>iss = ''did:example:mallory'', exp_claim = Some 1700000000\<rparr>
        else if s = bob_payload
        then Inr \<lparr>iss = ''did:example:bob'', exp_claim = Some 1700000000\<rparr>
        else Inl ''SyntaxError''),
      from_base64url = (\<lambda>s. if CHR ''*'' \<in> set s then Inl ''Non-base64url character'' else Inr s),
      resolveAtpData = (\<lambda>d.
        if d = ''did:example:alice'' then Inr \<lparr>signingKey = ''did:key:zAlice''\<rparr>
        else if d = ''did:example:bob'' then Inr \<lparr>signingKey = ''not a key''\<rparr>
        else Inl ''could not resolve''),
      verifySignature = (\<lambda>k m s.
        if k = ''did:key:zAlice'' then Inr (s = ''c2ln'') else Inl ''unsupported key'')\<rparr>"

text \<open>
  A \<^verbatim>\<open>jwt.verify\<close> that accepts one token under one secret, with the payload of an
  access token, and a server configuration.
\<close>

definition access_payload :: token_payload where
  "access_payload =
     \<lparr>scope = Some ''com.atproto.access'', sub = Some ''did:example:alice'', has_signature = False\<rparr>"

definition fixture_verify :: "string \<Rightarrow> string \<Rightarrow> unit option \<Rightarrow> verify_result" where
  "fixture_verify token key options =
     (if token = ''access-token'' \<and> key = ''jwt-secret'' then ReturnsObject access_payload
      else ThrowsOther)"

definition fixture_auth :: ServerAuth where
  "fixture_auth = \<lparr>secret = ''jwt-secret'', adminPass = ''hunter2''\<rparr>"

text \<open>
  The decoder of Basic credentials belongs to the \<^verbatim>\<open>uint8arrays\<close> package, a dependency of
  the repository, and is the parameter \<open>decode\<close> of \<open>parseBasicAuth\<close>.  The headers
  evaluated below carry one of five payloads; \<open>fixture_decode\<close> gives the text that
  \<^verbatim>\<open>ui8.toString(ui8.fromString(b64, 'base64pad'), 'utf8')\<close> returns on each of them
  (\<^verbatim>\<open>admin:hunter2\<close>, \<^verbatim>\<open>admin:hunter2:x\<close>, \<^verbatim>\<open>admin:pass:word\<close>, \<^verbatim>\<open>admin:a:b\<close> and
  \<^verbatim>\<open>admin::x\<close> in base64) and fails on any other payload, none of which is presented.
\<close>

definition fixture_decode :: "string \<Rightarrow> string option" where
  "fixture_decode b64 =
     (if b64 = ''YWRtaW46aHVudGVyMg=='' then Some ''admin:hunter2''
      else if b64 = ''YWRtaW46aHVudGVyMjp4'' then Some ''admin:hunter2:x''
      else if b64 = ''YWRtaW46cGFzczp3b3Jk'' then Some ''admin:pass:word''
      else if b64 = ''YWRtaW46YTpi'' then Some ''admin:a:b''
      else if b64 = ''YWRtaW46Ong='' then Some ''admin::x''
      else None)"

text \<open>
  The words of the specification for the administrative check, to compare with
  \<open>verifyAdmin\<close>: the request carries a Basic header whose decoded credentials are the
  user name \<^verbatim>\<open>admin\<close>, a colon and the configured password.
\<close>

definition spec_exact_admin_pair :: "(string \<Rightarrow> string option) \<Rightarrow> ServerAuth \<Rightarrow> request \<Rightarrow> bool" where
  "spec_exact_admin_pair decode auth req =
     (case authorization req of
        None \<Rightarrow> False
      | Some header \<Rightarrow>
          startsWith header BASIC
          \<and> decode (slice_from header (length BASIC)) = Some (''admin'' @ '':'' @ adminPass auth))"

section \<open>Splitting at a separator\<close>

lemma split_on_not_Nil: "split_on c s \<noteq> []"
  by (induction s) (auto split: list.splits)

lemma length_split_on: "length (split_on c s) = Suc (count_list s c)"
  by (induction s) (auto split: list.splits simp: split_on_not_Nil)

lemma split_on_append: "c \<notin> set a \<Longrightarrow> split_on c (a @ c # b) = a # split_on c b"
  by (induction a) auto

lemma split_on_single: "c \<notin> set a \<Longrightarrow> split_on c a = [a]"
  by (induction a) auto

lemma three_parts: "length xs = 3 \<Longrightarrow> \<exists>a b c. xs = [a, b, c]"
  by (auto simp: numeral_3_eq_3 length_Suc_conv)

lemma split_on_segments: "seg \<in> set (split_on c s) \<Longrightarrow> c \<notin> set seg"
proof (induction s arbitrary: seg)
  case Nil
  then show ?case by simp
next
  case (Cons x xs)
  obtain y ys where sp: "split_on c xs = y # ys"
    using split_on_not_Nil [of c xs] by (cases "split_on c xs") auto
  show ?case
  proof (cases "x = c")
    case True
    with Cons.prems have "seg = [] \<or> seg \<in> set (split_on c xs)" by simp
    with Cons.IH show ?thesis by auto
  next
    case False
    with Cons.prems sp have "seg = x # y \<or> seg \<in> set ys" by simp
    moreover have "c \<notin> set y" using Cons.IH [of y] sp by simp
    moreover have "seg \<in> set ys \<Longrightarrow> c \<notin> set seg" using Cons.IH [of seg] sp by simp
    ultimately show ?thesis using False by auto
  qed
qed

section \<open>The quotient of doubles\<close>

lemma round_half_even_near: "\<bar>of_int (round_half_even y) - y\<bar> \<le> 1 / 2"
proof -
  have "of_int \<lfloor>y\<rfloor> \<le> y" and "y < of_int \<lfloor>y\<rfloor> + 1"
    by linarith+
  then show ?thesis
    unfolding round_half_even_def Let_def by (auto simp: abs_le_iff)
qed

lemma round_half_even_of_int: "round_half_even (of_int n) = n"
  by (simp add: round_half_even_def)

lemma ilog2_upper: "n < 2 ^ Suc m \<Longrightarrow> ilog2 n \<le> int m"
proof (induction m arbitrary: n)
  case 0
  then show ?case by (simp add: ilog2.simps)
next
  case (Suc m)
  show ?case
  proof (cases "n \<le> 1")
    case True
    then show ?thesis by (simp add: ilog2.simps)
  next
    case False
    from Suc.prems have "n div 2 < 2 ^ Suc m" by simp
    then have "ilog2 (n div 2) \<le> int m" by (rule Suc.IH)
    with False show ?thesis by (simp add: ilog2.simps [of n])
  qed
qed

lemma ilog2_1000: "ilog2 1000 = 9"
  by code_simp

lemma binade_in_range:
  assumes "0 < p" and "p \<le> 8640000000000000"
  shows "binade p 1000 \<le> 42"
proof -
  have "p < 2 ^ Suc 52" using assms(2) by simp
  then have "ilog2 p \<le> 52" using ilog2_upper [of p 52] by simp
  then have e0: "ilog2 p - ilog2 1000 \<le> 43" by (simp add: ilog2_1000)
  show ?thesis
  proof (cases "power_int 2 (ilog2 p - ilog2 1000) \<le> (of_int p / of_int 1000 :: rat)")
    case False
    then show ?thesis using e0 by (simp add: binade_def Let_def)
  next
    case True
    have "(of_int p / of_int 1000 :: rat) \<le> 8640000000000" using assms(2) by simp
    also have "\<dots> < power_int 2 43" by simp
    finally have "power_int (2::rat) (ilog2 p - ilog2 1000) < power_int 2 43"
      using True by simp
    then have "ilog2 p - ilog2 1000 < 43"
      by (rule power_int_le_imp_less_exp [rotated]) simp_all
    with True show ?thesis by (simp add: binade_def Let_def)
  qed
qed

lemma nearest_double_error:
  assumes "0 < p" and "p \<le> 8640000000000000"
  shows "\<bar>nearest_double p 1000 - of_int p / 1000\<bar> \<le> 1 / 2048"
proof -
  define ulp :: rat where "ulp = power_int 2 (binade p 1000 - 52)"
  define x :: rat where "x = of_int p / of_int 1000"
  have pos: "0 < ulp" by (simp add: ulp_def)
  have "binade p 1000 - 52 \<le> - 10" using binade_in_range [OF assms] by simp
  then have "ulp \<le> power_int 2 (- 10)"
    unfolding ulp_def by (intro power_int_increasing) simp_all
  then have small: "ulp \<le> 1 / 1024" by (simp add: power_int_minus)
  have "\<bar>of_int (round_half_even (x / ulp)) - x / ulp\<bar> * ulp \<le> (1 / 2) * ulp"
    using round_half_even_near [of "x / ulp"] pos by (intro mult_right_mono) simp_all
  moreover have "(of_int (round_half_even (x / ulp)) - x / ulp) * ulp
      = of_int (round_half_even (x / ulp)) * ulp - x"
    using pos by (simp add: left_diff_distrib)
  then have "\<bar>of_int (round_half_even (x / ulp)) - x / ulp\<bar> * ulp
      = \<bar>of_int (round_half_even (x / ulp)) * ulp - x\<bar>"
    using pos abs_mult [of "of_int (round_half_even (x / ulp)) - x / ulp" ulp] by simp
  ultimately have "\<bar>of_int (round_half_even (x / ulp)) * ulp - x\<bar> \<le> 1 / 2048"
    using small by linarith
  then show ?thesis
    by (simp add: nearest_double_def Let_def ulp_def x_def)
qed

lemma nearest_double_unfold:
  "nearest_double (1000 * k) 1000
      = of_int (round_half_even ((of_int (1000 * k) / of_int 1000) / power_int 2 (binade (1000 * k) 1000 - 52)))
          * power_int 2 (binade (1000 * k) 1000 - 52)"
  by (simp only: nearest_double_def Let_def)

lemma scaled_round_exact:
  assumes ulp: "power_int (2::rat) (e - 52) = inverse (2 ^ n)"
  shows "(of_int (round_half_even ((of_int (1000 * k) / of_int 1000) / power_int 2 (e - 52))) :: rat)
          * power_int 2 (e - 52) = of_int k"
proof -
  have "(of_int (1000 * k) :: rat) / of_int 1000 = of_int k" by simp
  then have "(of_int (1000 * k) / of_int 1000 :: rat) / inverse (2 ^ n) = of_int k * 2 ^ n"
    by (simp only: divide_inverse inverse_inverse_eq)
  also have "\<dots> = of_int (k * 2 ^ n)" by simp
  finally have q: "(of_int (1000 * k) / of_int 1000 :: rat) / inverse (2 ^ n) = of_int (k * 2 ^ n)" .
  have "(of_int (round_half_even ((of_int (1000 * k) / of_int 1000) / power_int 2 (e - 52))) :: rat)
          * power_int 2 (e - 52) = of_int (round_half_even (of_int (k * 2 ^ n))) * inverse (2 ^ n)"
    by (simp only: ulp q)
  also have "\<dots> = of_int (k * 2 ^ n) * inverse (2 ^ n)"
    by (simp only: round_half_even_of_int)
  also have "\<dots> = of_int k"
    by simp
  finally show ?thesis .
qed

lemma nearest_double_exact:
  assumes "0 < k" and "1000 * k \<le> 8640000000000000"
  shows "nearest_double (1000 * k) 1000 = of_int k"
proof -
  define e where "e = binade (1000 * k) 1000"
  define n where "n = nat (52 - e)"
  have "e \<le> 42" unfolding e_def using assms by (intro binade_in_range) simp_all
  then have n: "e - 52 = - int n" by (simp add: n_def)
  have ulp: "power_int (2::rat) (e - 52) = inverse (2 ^ n)"
    unfolding n using power_int_minus [of "2::rat" "int n"] by simp
  from scaled_round_exact [OF ulp, of k] show ?thesis
    unfolding nearest_double_unfold e_def .
qed

lemma double_quotient_error:
  assumes "\<bar>a\<bar> \<le> 8640000000000000"
  shows "\<bar>double_quotient a 1000 - of_int a / 1000\<bar> \<le> 1 / 2048"
proof (cases "a = 0")
  case True
  then show ?thesis by (simp add: double_quotient_def)
next
  case False
  then have p: "0 < \<bar>a\<bar>" by simp
  have "double_quotient a 1000 - of_int a / 1000
      = of_int (sgn a) * (nearest_double \<bar>a\<bar> 1000 - of_int \<bar>a\<bar> / 1000)"
    using False by (cases "a < 0") (simp_all add: double_quotient_def algebra_simps)
  then have "\<bar>double_quotient a 1000 - of_int a / 1000\<bar>
      = \<bar>nearest_double \<bar>a\<bar> 1000 - of_int \<bar>a\<bar> / 1000\<bar>"
    using False by (cases "a < 0") (simp_all add: abs_mult)
  with nearest_double_error [OF p assms] show ?thesis by simp
qed

lemma double_quotient_exact:
  assumes "\<bar>1000 * k\<bar> \<le> 8640000000000000"
  shows "double_quotient (1000 * k) 1000 = of_int k"
proof (cases "k = 0")
  case True
  then show ?thesis by (simp add: double_quotient_def)
next
  case False
  have abs: "\<bar>1000 * k\<bar> = 1000 * \<bar>k\<bar>" by (simp add: abs_mult)
  have "nearest_double (1000 * \<bar>k\<bar>) 1000 = of_int \<bar>k\<bar>"
    using False assms by (intro nearest_double_exact) (simp_all add: abs_mult)
  then show ?thesis
    using False by (cases "k < 0") (simp_all add: double_quotient_def abs sgn_if)
qed

lemma double_quotient_gt_integer:
  assumes "\<bar>now\<bar> \<le> 8640000000000000"
  shows "of_int k < double_quotient now 1000 \<longleftrightarrow> 1000 * k < now"
proof -
  have lo: "of_int now / 1000 - 1 / 2048 \<le> double_quotient now 1000"
    and hi: "double_quotient now 1000 \<le> of_int now / 1000 + 1 / 2048"
    using double_quotient_error [OF assms] by (simp_all only: abs_le_iff) linarith+
  consider "1000 * k < now" | "now = 1000 * k" | "now < 1000 * k" by linarith
  then show ?thesis
  proof cases
    case 1
    then have "1000 * k + 1 \<le> now" by simp
    then have "(of_int (1000 * k + 1) :: rat) \<le> of_int now" by (simp only: of_int_le_iff)
    then have "(of_int k :: rat) + 1 / 1000 \<le> of_int now / 1000" by simp
    with lo have "(of_int k :: rat) < double_quotient now 1000" by linarith
    with 1 show ?thesis by simp
  next
    case 2
    with assms double_quotient_exact [of k] show ?thesis by simp
  next
    case 3
    then have "now + 1 \<le> 1000 * k" by simp
    then have "(of_int (now + 1) :: rat) \<le> of_int (1000 * k)" by (simp only: of_int_le_iff)
    then have "(of_int now :: rat) / 1000 + 1 / 1000 \<le> of_int k" by simp
    with hi have "double_quotient now 1000 < (of_int k :: rat)" by linarith
    with 3 show ?thesis by simp
  qed
qed

text \<open>Readings of the clock used below, and one quotient that is rounded.\<close>

lemma quotient_at_expiry: "double_quotient 1700000000000 1000 = 1700000000"
  using double_quotient_exact [of 1700000000] by simp

lemma quotient_rounded: "double_quotient 1700000000001 1000 = 7130316800004194 / 2 ^ 22"
  by code_simp

section \<open>Properties of the federated verifier\<close>

lemma join_two: "join_with sep [a, b] = a @ sep @ b"
  by simp

lemma verifyJwt_three_parts:
  assumes "split_on CHR ''.'' jwtStr = [h, p, s]"
    and "json_parse c p = Inr payload"
  shows "verifyJwt c now jwtStr =
     (if now_after now (exp_claim payload) then Inl (AuthRequiredError JwtExpired)
      else case from_base64url c s of
             Inl x \<Rightarrow> Inl (Thrown x)
           | Inr sigBytes \<Rightarrow>
               (case resolveAtpData c (iss payload) of
                  Inl x \<Rightarrow> Inl (Thrown x)
                | Inr atpData \<Rightarrow>
                    (case verifySignature c (signingKey atpData) (h @ ''.'' @ p) sigBytes of
                       Inl x \<Rightarrow> Inl (AuthRequiredError BadJwtSignature)
                     | Inr validSig \<Rightarrow>
                         if \<not> validSig then Inl (AuthRequiredError BadJwtSig)
                         else Inr (iss payload))))"
  using assms by (simp add: verifyJwt_def parseB64UrlToJson_def Let_def split: sum.splits)

text \<open>
  C1.  Let a token have three segments and a payload that parses and carries the expiry
  \<open>e\<close>, and let \<open>now_seconds\<close> be the double \<^verbatim>\<open>Date.now() / 1000\<close>.  The token is rejected as
  expired exactly when \<open>now_seconds\<close> is strictly greater than \<open>e\<close>; when its signature
  decodes, its issuer resolves and the signature verifies, it is accepted exactly when
  \<open>now_seconds \<le> e\<close>, so in particular at \<open>now_seconds = e\<close>.  For an expiry that is a
  whole number \<open>k\<close> of seconds and a clock within the range of \<^verbatim>\<open>Date\<close>, the rounding of
  the quotient does not move the boundary: the token is rejected exactly when the clock
  has passed millisecond \<open>1000 k\<close>, where \<open>now_seconds\<close> equals \<open>e\<close>, and accepted up to
  and at that millisecond.
\<close>

theorem verifyJwt_expiry_exclusive:
  assumes "split_on CHR ''.'' jwtStr = [h, p, s]"
    and "json_parse c p = Inr payload"
    and "exp_claim payload = Some e"
  shows "(verifyJwt c now jwtStr = Inl (AuthRequiredError JwtExpired)
            \<longleftrightarrow> e < double_quotient now 1000)
       \<and> (from_base64url c s = Inr sigBytes
            \<and> resolveAtpData c (iss payload) = Inr atpData
            \<and> verifySignature c (signingKey atpData) (h @ ''.'' @ p) sigBytes = Inr True
          \<longrightarrow> (verifyJwt c now jwtStr = Inr (iss payload) \<longleftrightarrow> double_quotient now 1000 \<le> e))
       \<and> (\<bar>now\<bar> \<le> 8640000000000000 \<and> e = of_int k
          \<longrightarrow> (verifyJwt c now jwtStr = Inl (AuthRequiredError JwtExpired) \<longleftrightarrow> 1000 * k < now)
            \<and> (now = 1000 * k \<longrightarrow> double_quotient now 1000 = e)
            \<and> (from_base64url c s = Inr sigBytes
                 \<and> resolveAtpData c (iss payload) = Inr atpData
                 \<and> verifySignature c (signingKey atpData) (h @ ''.'' @ p) sigBytes = Inr True
               \<longrightarrow> (verifyJwt c now jwtStr = Inr (iss payload) \<longleftrightarrow> now \<le> 1000 * k)))"
proof -
  note unfolded = verifyJwt_three_parts [OF assms(1) assms(2), of now]
  have after: "now_after now (exp_claim payload) \<longleftrightarrow> e < double_quotient now 1000"
    using assms(3) by (simp add: now_after_def)
  have expired: "verifyJwt c now jwtStr = Inl (AuthRequiredError JwtExpired)
      \<longleftrightarrow> e < double_quotient now 1000"
    unfolding unfolded after by (auto split: sum.splits)
  have accepted: "verifyJwt c now jwtStr = Inr (iss payload) \<longleftrightarrow> double_quotient now 1000 \<le> e"
    if "from_base64url c s = Inr sigBytes"
      and "resolveAtpData c (iss payload) = Inr atpData"
      and "verifySignature c (signingKey atpData) (h @ ''.'' @ p) sigBytes = Inr True"
    unfolding unfolded after using that by auto
  have whole: "e < double_quotient now 1000 \<longleftrightarrow> 1000 * k < now"
    and at_expiry: "now = 1000 * k \<longrightarrow> double_quotient now 1000 = e"
    if "\<bar>now\<bar> \<le> 8640000000000000" and "e = of_int k"
    using that double_quotient_gt_integer [of now k] double_quotient_exact [of k] by auto
  from whole have whole': "double_quotient now 1000 \<le> e \<longleftrightarrow> now \<le> 1000 * k"
    if "\<bar>now\<bar> \<le> 8640000000000000" and "e = of_int k"
    using that by (simp add: not_less [symmetric])
  from expired accepted whole at_expiry whole' show ?thesis by blast
qed

text \<open>The fixture token has three segments.\<close>

lemma alice_parts:
  \<open>split_on CHR ''.'' alice_token = [''{"typ":"JWT","alg":"ES256K"}'', alice_payload, ''c2ln'']\<close>
  by (simp add: alice_token_def alice_payload_def)

theorem verifyJwt_expiry_exclusive_witness:
  "verifyJwt fixture 1700000000000 alice_token = Inr ''did:example:alice''
   \<and> verifyJwt fixture 1700000000001 alice_token = Inl (AuthRequiredError JwtExpired)
   \<and> verifyJwt fixture 1700000001000 alice_token = Inl (AuthRequiredError JwtExpired)"
proof -
  let ?p = "\<lparr>iss = ''did:example:alice'', exp_claim = Some (1700000000::rat)\<rparr>"
  let ?key = "\<lparr>signingKey = ''did:key:zAlice''\<rparr>"
  have parse: "json_parse fixture alice_payload = Inr ?p"
    by (simp add: fixture_def)
  have e: "exp_claim ?p = Some 1700000000"
    by simp
  have valid: \<open>from_base64url fixture ''c2ln'' = Inr ''c2ln''
      \<and> resolveAtpData fixture (iss ?p) = Inr ?key
      \<and> verifySignature fixture (signingKey ?key)
            (''{"typ":"JWT","alg":"ES256K"}'' @ ''.'' @ alice_payload) ''c2ln'' = Inr True\<close>
    by (simp add: fixture_def)
  have at0: "\<bar>1700000000000 :: int\<bar> \<le> 8640000000000000 \<and> (1700000000 :: rat) = of_int 1700000000"
    and at1: "\<bar>1700000000001 :: int\<bar> \<le> 8640000000000000 \<and> (1700000000 :: rat) = of_int 1700000000"
    and at2: "\<bar>1700000001000 :: int\<bar> \<le> 8640000000000000 \<and> (1700000000 :: rat) = of_int 1700000000"
    by simp_all
  note boundary = verifyJwt_expiry_exclusive [OF alice_parts parse e, where sigBytes = "''c2ln''"
      and atpData = ?key and k = 1700000000, THEN conjunct2, THEN conjunct2, THEN mp]
  have "verifyJwt fixture 1700000000000 alice_token = Inr (iss ?p) \<longleftrightarrow>
      (1700000000000 :: int) \<le> 1000 * 1700000000"
    using boundary [OF at0, THEN conjunct2, THEN conjunct2, THEN mp, OF valid] .
  then have accepted: "verifyJwt fixture 1700000000000 alice_token = Inr ''did:example:alice''"
    by simp
  have "verifyJwt fixture 1700000000001 alice_token = Inl (AuthRequiredError JwtExpired) \<longleftrightarrow>
      1000 * 1700000000 < (1700000000001 :: int)"
    using boundary [OF at1, THEN conjunct1] .
  then have next_ms: "verifyJwt fixture 1700000000001 alice_token = Inl (AuthRequiredError JwtExpired)"
    by simp
  have "verifyJwt fixture 1700000001000 alice_token = Inl (AuthRequiredError JwtExpired) \<longleftrightarrow>
      1000 * 1700000000 < (1700000001000 :: int)"
    using boundary [OF at2, THEN conjunct1] .
  then have next_s: "verifyJwt fixture 1700000001000 alice_token = Inl (AuthRequiredError JwtExpired)"
    by simp
  from accepted next_ms next_s show ?thesis by simp
qed

text \<open>What \<open>verifyJwt\<close> answers, by the first step that stops it.\<close>

lemma verifyJwt_outcome:
  obtains
    (malformed) "length (split_on CHR ''.'' jwtStr) \<noteq> 3"
      "verifyJwt c now jwtStr = Inl (AuthRequiredError BadJwt)"
  | (parser) h p s x where "split_on CHR ''.'' jwtStr = [h, p, s]" "json_parse c p = Inl x"
      "verifyJwt c now jwtStr = Inl (Thrown x)"
  | (expired) h p s payload where "split_on CHR ''.'' jwtStr = [h, p, s]"
      "json_parse c p = Inr payload" "now_after now (exp_claim payload)"
      "verifyJwt c now jwtStr = Inl (AuthRequiredError JwtExpired)"
  | (decoder) h p s payload x where "split_on CHR ''.'' jwtStr = [h, p, s]"
      "json_parse c p = Inr payload" "\<not> now_after now (exp_claim payload)"
      "from_base64url c s = Inl x" "verifyJwt c now jwtStr = Inl (Thrown x)"
  | (resolver) h p s payload sigBytes x where "split_on CHR ''.'' jwtStr = [h, p, s]"
      "json_parse c p = Inr payload" "\<not> now_after now (exp_claim payload)"
      "from_base64url c s = Inr sigBytes" "resolveAtpData c (iss payload) = Inl x"
      "verifyJwt c now jwtStr = Inl (Thrown x)"
  | (check_throws) h p s payload sigBytes atpData x where "split_on CHR ''.'' jwtStr = [h, p, s]"
      "json_parse c p = Inr payload" "\<not> now_after now (exp_claim payload)"
      "from_base64url c s = Inr sigBytes" "resolveAtpData c (iss payload) = Inr atpData"
      "verifySignature c (signingKey atpData) (h @ ''.'' @ p) sigBytes = Inl x"
      "verifyJwt c now jwtStr = Inl (AuthRequiredError BadJwtSignature)"
  | (mismatch) h p s payload sigBytes atpData where "split_on CHR ''.'' jwtStr = [h, p, s]"
      "json_parse c p = Inr payload" "\<not> now_after now (exp_claim payload)"
      "from_base64url c s = Inr sigBytes" "resolveAtpData c (iss payload) = Inr atpData"
      "verifySignature c (signingKey atpData) (h @ ''.'' @ p) sigBytes = Inr False"
      "verifyJwt c now jwtStr = Inl (AuthRequiredError BadJwtSig)"
  | (verified) h p s payload sigBytes atpData where "split_on CHR ''.'' jwtStr = [h, p, s]"
      "json_parse c p = Inr payload" "\<not> now_after now (exp_claim payload)"
      "from_base64url c s = Inr sigBytes" "resolveAtpData c (iss payload) = Inr atpData"
      "verifySignature c (signingKey atpData) (h @ ''.'' @ p) sigBytes = Inr True"
      "verifyJwt c now jwtStr = Inr (iss payload)"
proof (cases "length (split_on CHR ''.'' jwtStr) = 3")
  case False
  then have "verifyJwt c now jwtStr = Inl (AuthRequiredError BadJwt)"
    by (simp add: verifyJwt_def Let_def)
  with False show ?thesis by (rule malformed)
next
  case True
  then obtain h p s where parts: "split_on CHR ''.'' jwtStr = [h, p, s]"
    using three_parts by blast
  show ?thesis
  proof (cases "json_parse c p")
    case (Inl x)
    then have "verifyJwt c now jwtStr = Inl (Thrown x)"
      using parts by (simp add: verifyJwt_def parseB64UrlToJson_def Let_def)
    with parts Inl show ?thesis by (rule parser)
  next
    case (Inr payload)
    note u = verifyJwt_three_parts [OF parts Inr, of now]
    show ?thesis
    proof (cases "now_after now (exp_claim payload)")
      case True
      then have "verifyJwt c now jwtStr = Inl (AuthRequiredError JwtExpired)"
        unfolding u by simp
      with parts Inr True show ?thesis by (rule expired)
    next
      case fresh: False
      show ?thesis
      proof (cases "from_base64url c s")
        case (Inl x)
        then have "verifyJwt c now jwtStr = Inl (Thrown x)"
          unfolding u using fresh by simp
        with parts Inr fresh Inl show ?thesis by (rule decoder)
      next
        case sg: (Inr sigBytes)
        show ?thesis
        proof (cases "resolveAtpData c (iss payload)")
          case (Inl x)
          then have "verifyJwt c now jwtStr = Inl (Thrown x)"
            unfolding u using fresh sg by simp
          with parts Inr fresh sg Inl show ?thesis by (rule resolver)
        next
          case key: (Inr atpData)
          show ?thesis
          proof (cases "verifySignature c (signingKey atpData) (h @ ''.'' @ p) sigBytes")
            case (Inl x)
            then have "verifyJwt c now jwtStr = Inl (AuthRequiredError BadJwtSignature)"
              unfolding u using fresh sg key by simp
            with parts Inr fresh sg key Inl show ?thesis by (rule check_throws)
          next
            case v: (Inr validSig)
            show ?thesis
            proof (cases validSig)
              case True
              with v have t: "verifySignature c (signingKey atpData) (h @ ''.'' @ p) sigBytes = Inr True"
                by simp
              then have "verifyJwt c now jwtStr = Inr (iss payload)"
                unfolding u using fresh sg key by simp
              with parts Inr fresh sg key t show ?thesis by (rule verified)
            next
              case False
              with v have f: "verifySignature c (signingKey atpData) (h @ ''.'' @ p) sigBytes = Inr False"
                by simp
              then have "verifyJwt c now jwtStr = Inl (AuthRequiredError BadJwtSig)"
                unfolding u using fresh sg key by simp
              with parts Inr fresh sg key f show ?thesis by (rule mismatch)
            qed
          qed
        qed
      qed
    qed
  qed
qed

lemma verifyJwt_thrown_iff:
  "verifyJwt c now jwtStr = Inl (Thrown x) \<longleftrightarrow>
     (\<exists>h p s. split_on CHR ''.'' jwtStr = [h, p, s]
        \<and> (json_parse c p = Inl x
           \<or> (\<exists>payload. json_parse c p = Inr payload \<and> \<not> now_after now (exp_claim payload)
                 \<and> (from_base64url c s = Inl x
                    \<or> (\<exists>sigBytes. from_base64url c s = Inr sigBytes
                          \<and> resolveAtpData c (iss payload) = Inl x)))))"
  by (cases rule: verifyJwt_outcome [of jwtStr c now]) auto

lemma verifyJwt_BadJwt_iff:
  "verifyJwt c now jwtStr = Inl (AuthRequiredError BadJwt) \<longleftrightarrow> length (split_on CHR ''.'' jwtStr) \<noteq> 3"
  by (cases rule: verifyJwt_outcome [of jwtStr c now]) auto

lemma verifyJwt_JwtExpired_iff:
  "verifyJwt c now jwtStr = Inl (AuthRequiredError JwtExpired) \<longleftrightarrow>
     (\<exists>h p s payload. split_on CHR ''.'' jwtStr = [h, p, s] \<and> json_parse c p = Inr payload
        \<and> now_after now (exp_claim payload))"
  by (cases rule: verifyJwt_outcome [of jwtStr c now]) auto

lemma verifyJwt_BadJwtSignature_iff:
  "verifyJwt c now jwtStr = Inl (AuthRequiredError BadJwtSignature) \<longleftrightarrow>
     (\<exists>h p s payload sigBytes atpData x.
         split_on CHR ''.'' jwtStr = [h, p, s] \<and> json_parse c p = Inr payload
       \<and> \<not> now_after now (exp_claim payload) \<and> from_base64url c s = Inr sigBytes
       \<and> resolveAtpData c (iss payload) = Inr atpData
       \<and> verifySignature c (signingKey atpData) (h @ ''.'' @ p) sigBytes = Inl x)"
  by (cases rule: verifyJwt_outcome [of jwtStr c now]) auto

lemma verifyJwt_BadJwtSig_iff:
  "verifyJwt c now jwtStr = Inl (AuthRequiredError BadJwtSig) \<longleftrightarrow>
     (\<exists>h p s payload sigBytes atpData.
         split_on CHR ''.'' jwtStr = [h, p, s] \<and> json_parse c p = Inr payload
       \<and> \<not> now_after now (exp_claim payload) \<and> from_base64url c s = Inr sigBytes
       \<and> resolveAtpData c (iss payload) = Inr atpData
       \<and> verifySignature c (signingKey atpData) (h @ ''.'' @ p) sigBytes = Inr False)"
  by (cases rule: verifyJwt_outcome [of jwtStr c now]) auto

lemma verifyJwt_not_MissingJwt:
  "verifyJwt c now jwtStr \<noteq> Inl (AuthRequiredError MissingJwt)"
  by (cases rule: verifyJwt_outcome [of jwtStr c now]) auto

text \<open>
  C2 (as amended).  The verifier raises five named failures itself, each in exactly one
  situation: \<open>MissingJwt\<close> when the request carries no bearer token, \<open>BadJwt\<close> when the
  token does not have three segments, \<open>JwtExpired\<close> when the clock is past the expiry,
  \<open>BadJwtSignature\<close> when the signature check throws, and \<open>BadJwtSig\<close> when the
  signature check returns false; the last two names differ.  An exception \<open>x\<close> of the
  payload parser, of the signature decoder or of the resolver is not caught: the
  verifier fails with \<open>x\<close> itself, which is none of the named failures, and it fails
  with such an \<open>x\<close> in these three situations only.
\<close>

theorem verifyJwt_failure_kinds:
  "(verifyJwt c now jwtStr = Inl (Thrown x) \<longleftrightarrow>
      (\<exists>h p s. split_on CHR ''.'' jwtStr = [h, p, s]
         \<and> (json_parse c p = Inl x
            \<or> (\<exists>payload. json_parse c p = Inr payload \<and> \<not> now_after now (exp_claim payload)
                  \<and> (from_base64url c s = Inl x
                     \<or> (\<exists>sigBytes. from_base64url c s = Inr sigBytes
                           \<and> resolveAtpData c (iss payload) = Inl x))))))
   \<and> \<not> typed_failure (Thrown x)
   \<and> (verifyJwt c now jwtStr = Inl (AuthRequiredError BadJwt) \<longleftrightarrow>
        length (split_on CHR ''.'' jwtStr) \<noteq> 3)
   \<and> (verifyJwt c now jwtStr = Inl (AuthRequiredError JwtExpired) \<longleftrightarrow>
        (\<exists>h p s payload. split_on CHR ''.'' jwtStr = [h, p, s] \<and> json_parse c p = Inr payload
           \<and> now_after now (exp_claim payload)))
   \<and> (verifyJwt c now jwtStr = Inl (AuthRequiredError BadJwtSignature) \<longleftrightarrow>
        (\<exists>h p s payload sigBytes atpData y.
            split_on CHR ''.'' jwtStr = [h, p, s] \<and> json_parse c p = Inr payload
          \<and> \<not> now_after now (exp_claim payload) \<and> from_base64url c s = Inr sigBytes
          \<and> resolveAtpData c (iss payload) = Inr atpData
          \<and> verifySignature c (signingKey atpData) (h @ ''.'' @ p) sigBytes = Inl y))
   \<and> (verifyJwt c now jwtStr = Inl (AuthRequiredError BadJwtSig) \<longleftrightarrow>
        (\<exists>h p s payload sigBytes atpData.
            split_on CHR ''.'' jwtStr = [h, p, s] \<and> json_parse c p = Inr payload
          \<and> \<not> now_after now (exp_claim payload) \<and> from_base64url c s = Inr sigBytes
          \<and> resolveAtpData c (iss payload) = Inr atpData
          \<and> verifySignature c (signingKey atpData) (h @ ''.'' @ p) sigBytes = Inr False))
   \<and> BadJwtSignature \<noteq> BadJwtSig
   \<and> (authVerifier c now req = Inl (AuthRequiredError MissingJwt) \<longleftrightarrow>
        getJwtStrFromReq req = None \<or> getJwtStrFromReq req = Some [])
   \<and> (getJwtStrFromReq req = Some jwtStr \<and> jwtStr \<noteq> [] \<longrightarrow>
        authVerifier c now req = verifyJwt c now jwtStr)"
proof -
  have missing: "authVerifier c now req = Inl (AuthRequiredError MissingJwt) \<longleftrightarrow>
        getJwtStrFromReq req = None \<or> getJwtStrFromReq req = Some []"
    using verifyJwt_not_MissingJwt [of c now]
    by (cases "getJwtStrFromReq req") (auto simp: authVerifier_def)
  have passed: "getJwtStrFromReq req = Some jwtStr \<and> jwtStr \<noteq> [] \<longrightarrow>
        authVerifier c now req = verifyJwt c now jwtStr"
    by (simp add: authVerifier_def)
  have untyped: "\<not> typed_failure (Thrown x)" and names: "BadJwtSignature \<noteq> BadJwtSig"
    by simp_all
  show ?thesis
    by (intro conjI verifyJwt_thrown_iff untyped verifyJwt_BadJwt_iff verifyJwt_JwtExpired_iff
        verifyJwt_BadJwtSignature_iff verifyJwt_BadJwtSig_iff names missing passed)
qed

text \<open>The fixture tokens, evaluated.\<close>

lemma bob_result:
  "verifyJwt fixture 1700000000000 bob_token = Inl (AuthRequiredError BadJwtSignature)"
  by (simp add: verifyJwt_def parseB64UrlToJson_def now_after_def quotient_at_expiry fixture_def
      bob_token_def bob_payload_def alice_payload_def mallory_payload_def Let_def)

lemma forged_result:
  "verifyJwt fixture 1700000000000 forged_token = Inl (AuthRequiredError BadJwtSig)"
  by (simp add: verifyJwt_def parseB64UrlToJson_def now_after_def quotient_at_expiry fixture_def
      forged_token_def bob_payload_def alice_payload_def mallory_payload_def Let_def)

lemma mallory_result:
  "verifyJwt fixture 1700000000000 mallory_token = Inl (Thrown ''could not resolve'')"
  by (simp add: verifyJwt_def parseB64UrlToJson_def now_after_def quotient_at_expiry fixture_def
      mallory_token_def bob_payload_def alice_payload_def mallory_payload_def Let_def)

lemma undecodable_result:
  "verifyJwt fixture 1700000000000 undecodable_token = Inl (Thrown ''Non-base64url character'')"
  by (simp add: verifyJwt_def parseB64UrlToJson_def now_after_def quotient_at_expiry fixture_def
      undecodable_token_def bob_payload_def alice_payload_def mallory_payload_def Let_def)

lemma unparsable_result:
  "verifyJwt fixture 1700000000000 unparsable_token = Inl (Thrown ''SyntaxError'')"
  by (simp add: verifyJwt_def parseB64UrlToJson_def fixture_def unparsable_token_def
      bob_payload_def alice_payload_def mallory_payload_def Let_def)

theorem verifyJwt_failure_kinds_witness:
  "verifyJwt fixture 1700000000000 bob_token = Inl (AuthRequiredError BadJwtSignature)
   \<and> verifyJwt fixture 1700000000000 forged_token = Inl (AuthRequiredError BadJwtSig)
   \<and> verifyJwt fixture 1700000000000 mallory_token = Inl (Thrown ''could not resolve'')
   \<and> authVerifier fixture 1700000000000 \<lparr>authorization = Some (''Bearer '' @ mallory_token)\<rparr>
       = Inl (Thrown ''could not resolve'')
   \<and> authVerifier fixture 1700000000000 \<lparr>authorization = None\<rparr>
       = Inl (AuthRequiredError MissingJwt)"
proof -
  let ?req = "\<lparr>authorization = Some (''Bearer '' @ mallory_token)\<rparr>"
  have bearer: "getJwtStrFromReq ?req = Some mallory_token \<and> mallory_token \<noteq> []"
    by (simp add: getJwtStrFromReq_def startsWith_def trim_def is_space_def mallory_token_def
        mallory_payload_def)
  have none: "getJwtStrFromReq \<lparr>authorization = None\<rparr> = None \<or>
      getJwtStrFromReq \<lparr>authorization = None\<rparr> = Some []"
    by (simp add: getJwtStrFromReq_def startsWith_def)
  note kinds = verifyJwt_failure_kinds [where c = fixture and now = 1700000000000
      and x = "''could not resolve''"]
  have through: "authVerifier fixture 1700000000000 ?req = verifyJwt fixture 1700000000000 mallory_token"
    using kinds [where jwtStr = mallory_token and req = ?req] bearer by blast
  have missing: "authVerifier fixture 1700000000000 \<lparr>authorization = None\<rparr>
      = Inl (AuthRequiredError MissingJwt)"
    using kinds [where jwtStr = "[]" and req = "\<lparr>authorization = None\<rparr>"] none by blast
  from through missing bob_result forged_result mallory_result show ?thesis
    by simp
qed

text \<open>
  C2 as stated fails: a token of an identity that the resolver cannot resolve, a token
  whose signature does not decode and a token whose payload is not JSON each make the
  verifier fail with the collaborator's own exception, which is none of the named
  failures.
\<close>

theorem verifyJwt_untyped_failure_counterexample:
  "verifyJwt fixture 1700000000000 mallory_token = Inl (Thrown ''could not resolve'')
   \<and> verifyJwt fixture 1700000000000 undecodable_token = Inl (Thrown ''Non-base64url character'')
   \<and> verifyJwt fixture 1700000000000 unparsable_token = Inl (Thrown ''SyntaxError'')
   \<and> \<not> typed_failure (Thrown ''could not resolve'' :: string failure)
   \<and> \<not> typed_failure (Thrown ''Non-base64url character'' :: string failure)
   \<and> \<not> typed_failure (Thrown ''SyntaxError'' :: string failure)"
  using mallory_result undecodable_result unparsable_result by simp

text \<open>
  C3 (as amended).  The optional verifier answers the anonymous identity, without a
  failure, for a request whose Authorization header is absent or the empty string; for
  every request with a non-empty Authorization header it answers what the required
  verifier answers on that request.
\<close>

theorem authOptionalVerifier_cases:
  "(authorization req = None \<or> authorization req = Some [] \<longrightarrow>
      authOptionalVerifier c now req = Inr None)
   \<and> (authorization req = Some a \<and> a \<noteq> [] \<longrightarrow>
      authOptionalVerifier c now req = map_sum id Some (authVerifier c now req))"
  by (auto simp: authOptionalVerifier_def)

lemma alice_bearer:
  "authVerifier fixture 1700000000000 \<lparr>authorization = Some (''Bearer '' @ alice_token)\<rparr>
     = Inr ''did:example:alice''"
  by (simp add: authVerifier_def getJwtStrFromReq_def startsWith_def trim_def is_space_def
      verifyJwt_def parseB64UrlToJson_def now_after_def quotient_at_expiry fixture_def alice_token_def
      alice_payload_def Let_def)

theorem authOptionalVerifier_cases_witness:
  "authOptionalVerifier fixture 1700000000000 \<lparr>authorization = None\<rparr> = Inr None
   \<and> authOptionalVerifier fixture 1700000000000 \<lparr>authorization = Some (''Bearer '' @ alice_token)\<rparr>
       = Inr (Some ''did:example:alice'')
   \<and> authOptionalVerifier fixture 1700000000000 \<lparr>authorization = Some ''Bearer abc''\<rparr>
       = Inl (AuthRequiredError BadJwt)
   \<and> authVerifier fixture 1700000000000 \<lparr>authorization = Some ''Bearer abc''\<rparr>
       = Inl (AuthRequiredError BadJwt)"
proof -
  have bad: "authVerifier fixture 1700000000000 \<lparr>authorization = Some ''Bearer abc''\<rparr>
       = Inl (AuthRequiredError BadJwt)"
    by (simp add: authVerifier_def getJwtStrFromReq_def startsWith_def trim_def is_space_def
        verifyJwt_def Let_def)
  show ?thesis
    using authOptionalVerifier_cases [where req = "\<lparr>authorization = None\<rparr>" and c = fixture
        and now = 1700000000000]
      authOptionalVerifier_cases [where req = "\<lparr>authorization = Some (''Bearer '' @ alice_token)\<rparr>"
        and a = "''Bearer '' @ alice_token" and c = fixture and now = 1700000000000]
      authOptionalVerifier_cases [where req = "\<lparr>authorization = Some ''Bearer abc''\<rparr>"
        and a = "''Bearer abc''" and c = fixture and now = 1700000000000]
      alice_bearer bad
    by simp
qed

text \<open>
  C3 as stated fails: with an Authorization header that is present and empty the
  optional verifier answers the anonymous identity, where the required verifier fails
  with \<open>MissingJwt\<close>.
\<close>

theorem authOptionalVerifier_empty_header_counterexample:
  "authOptionalVerifier fixture 1700000000000 \<lparr>authorization = Some ''''\<rparr> = Inr None
   \<and> authVerifier fixture 1700000000000 \<lparr>authorization = Some ''''\<rparr>
       = Inl (AuthRequiredError MissingJwt)"
  by (simp add: authOptionalVerifier_def authVerifier_def getJwtStrFromReq_def startsWith_def)

section \<open>Properties of the local token authority\<close>

lemma scope_value_inj: "scope_value a = scope_value b \<longleftrightarrow> a = b"
  by (cases a; cases b) simp_all

lemma scope_listed: "Some (scope_value s) \<in> set (map (\<lambda>s. Some (scope_value s)) scopes) \<longleftrightarrow> s \<in> set scopes"
  by (auto simp: scope_value_inj)

lemma verifyToken_object:
  assumes "jwt_verify token (secret auth) options = ReturnsObject payload"
    and "\<not> has_signature payload"
  shows "verifyToken jwt_verify auth token scopes options =
     (if scopes \<noteq> [] \<and> scope payload \<notin> set (map (\<lambda>s. Some (scope_value s)) scopes)
      then Inl InvalidToken else Inr payload)"
  using assms by (simp add: verifyToken_def verifyToken_try_def)

text \<open>
  C4.  Let \<^verbatim>\<open>jwt.verify\<close> accept a token and return its payload, which carries the
  scope \<open>s\<close>.  Under a non-empty allow-list, \<open>verifyToken\<close> returns the payload when \<open>s\<close>
  is listed and fails with \<open>InvalidToken\<close> when it is not, so it succeeds only if \<open>s\<close> is
  listed; under the empty allow-list it returns the payload whatever the scope is.
  \<open>getCredentials\<close>, on a request carrying the token as bearer, fails with
  \<open>InvalidToken\<close> when \<open>s\<close> is not in a non-empty allow-list, and returns the subject
  and the scope otherwise, the subject being an identity.
\<close>

theorem verifyToken_scope_allow_list:
  assumes "jwt_verify token (secret auth) options = ReturnsObject payload"
    and "\<not> has_signature payload"
  shows "(scopes = [] \<longrightarrow> verifyToken jwt_verify auth token scopes options = Inr payload)
     \<and> (scopes \<noteq> [] \<and> scope payload = Some (scope_value s) \<longrightarrow>
          (s \<in> set scopes \<longrightarrow> verifyToken jwt_verify auth token scopes options = Inr payload)
        \<and> (s \<notin> set scopes \<longrightarrow> verifyToken jwt_verify auth token scopes options = Inl InvalidToken)
        \<and> ((\<exists>p. verifyToken jwt_verify auth token scopes options = Inr p) \<longleftrightarrow> s \<in> set scopes))
     \<and> (options = None \<and> getToken req = Some token \<and> token \<noteq> []
          \<and> scope payload = Some (scope_value s) \<longrightarrow>
          (scopes \<noteq> [] \<and> s \<notin> set scopes \<longrightarrow>
             getCredentials jwt_verify auth req scopes = Inl InvalidToken)
        \<and> ((scopes = [] \<or> s \<in> set scopes) \<and> sub payload = Some d \<and> startsWith d ''did:'' \<longrightarrow>
             getCredentials jwt_verify auth req scopes = Inr (Some (d, Some (scope_value s)))))"
proof -
  note v = verifyToken_object [of jwt_verify token auth options payload scopes, OF assms]
  have empty: "scopes = [] \<longrightarrow> verifyToken jwt_verify auth token scopes options = Inr payload"
    unfolding v by simp
  have listed: "scopes \<noteq> [] \<and> scope payload = Some (scope_value s) \<longrightarrow>
          (s \<in> set scopes \<longrightarrow> verifyToken jwt_verify auth token scopes options = Inr payload)
        \<and> (s \<notin> set scopes \<longrightarrow> verifyToken jwt_verify auth token scopes options = Inl InvalidToken)
        \<and> ((\<exists>p. verifyToken jwt_verify auth token scopes options = Inr p) \<longleftrightarrow> s \<in> set scopes)"
    unfolding v using scope_listed [of s scopes] by auto
  have creds: "options = None \<and> getToken req = Some token \<and> token \<noteq> []
          \<and> scope payload = Some (scope_value s) \<longrightarrow>
          (scopes \<noteq> [] \<and> s \<notin> set scopes \<longrightarrow>
             getCredentials jwt_verify auth req scopes = Inl InvalidToken)
        \<and> ((scopes = [] \<or> s \<in> set scopes) \<and> sub payload = Some d \<and> startsWith d ''did:'' \<longrightarrow>
             getCredentials jwt_verify auth req scopes = Inr (Some (d, Some (scope_value s))))"
  proof (intro impI, elim conjE)
    assume o: "options = None" and t: "getToken req = Some token" "token \<noteq> []"
      and sc: "scope payload = Some (scope_value s)"
    have g: "getCredentials jwt_verify auth req scopes =
        (case verifyToken jwt_verify auth token scopes None of
           Inl err \<Rightarrow> Inl err
         | Inr payload \<Rightarrow>
             (case sub payload of
                None \<Rightarrow> Inl InvalidToken
              | Some s \<Rightarrow>
                  if \<not> startsWith s ''did:'' then Inl InvalidToken
                  else Inr (Some (s, scope payload))))"
      using t by (simp add: getCredentials_def)
    show "(scopes \<noteq> [] \<and> s \<notin> set scopes \<longrightarrow>
             getCredentials jwt_verify auth req scopes = Inl InvalidToken)
        \<and> ((scopes = [] \<or> s \<in> set scopes) \<and> sub payload = Some d \<and> startsWith d ''did:'' \<longrightarrow>
             getCredentials jwt_verify auth req scopes = Inr (Some (d, Some (scope_value s))))"
      unfolding g using v o sc scope_listed [of s scopes] by auto
  qed
  from empty listed creds show ?thesis by blast
qed

theorem verifyToken_scope_allow_list_witness:
  "verifyToken fixture_verify fixture_auth ''access-token'' [] None = Inr access_payload
   \<and> verifyToken fixture_verify fixture_auth ''access-token'' [Access, AppPass] None = Inr access_payload
   \<and> verifyToken fixture_verify fixture_auth ''access-token'' [Refresh] None = Inl InvalidToken
   \<and> getCredentials fixture_verify fixture_auth \<lparr>authorization = Some ''Bearer access-token''\<rparr> [Refresh]
       = Inl InvalidToken
   \<and> getCredentials fixture_verify fixture_auth \<lparr>authorization = Some ''Bearer access-token''\<rparr> [Access]
       = Inr (Some (''did:example:alice'', Some ''com.atproto.access''))"
proof -
  let ?req = "\<lparr>authorization = Some ''Bearer access-token''\<rparr>"
  have ret: "fixture_verify ''access-token'' (secret fixture_auth) None = ReturnsObject access_payload"
    by (simp add: fixture_verify_def fixture_auth_def)
  have nosig: "\<not> has_signature access_payload"
    by (simp add: access_payload_def)
  have sc: "scope access_payload = Some (scope_value Access)"
    by (simp add: access_payload_def)
  have sb: "sub access_payload = Some ''did:example:alice''"
    by (simp add: access_payload_def)
  have tok: "getToken ?req = Some ''access-token''"
    by (simp add: getToken_def header_or_empty_def BEARER_def startsWith_def slice_from_def)
  have did: "startsWith ''did:example:alice'' ''did:''"
    by (simp add: startsWith_def)
  show ?thesis
    using verifyToken_scope_allow_list [of fixture_verify "''access-token''" fixture_auth None access_payload
        "[]" Access ?req "''did:example:alice''", OF ret nosig]
      verifyToken_scope_allow_list [of fixture_verify "''access-token''" fixture_auth None access_payload
        "[Access, AppPass]" Access ?req "''did:example:alice''", OF ret nosig]
      verifyToken_scope_allow_list [of fixture_verify "''access-token''" fixture_auth None access_payload
        "[Refresh]" Access ?req "''did:example:alice''", OF ret nosig]
      verifyToken_scope_allow_list [of fixture_verify "''access-token''" fixture_auth None access_payload
        "[Access]" Access ?req "''did:example:alice''", OF ret nosig]
      sc sb tok did
    by simp
qed

section \<open>Properties of the administrative check\<close>

lemma startsWith_append: "startsWith (p @ s) p"
  by (simp add: startsWith_def)

lemma startsWith_iff: "startsWith s p \<longleftrightarrow> (\<exists>r. s = p @ r)"
  unfolding startsWith_def
  by (metis append_eq_conv_conj append_take_drop_id)

lemma parseBasicAuth_Some:
  "parseBasicAuth decode token = Some cred \<longleftrightarrow>
     (\<exists>b64 text rest. token = BASIC @ b64 \<and> decode b64 = Some text
        \<and> split_on CHR '':'' text = username cred # password cred # rest
        \<and> username cred \<noteq> [] \<and> password cred \<noteq> [])"
proof (cases "startsWith token BASIC")
  case False
  then show ?thesis
    by (auto simp: parseBasicAuth_def startsWith_append)
next
  case True
  then obtain b64 where tk: "token = BASIC @ b64"
    using startsWith_iff by blast
  have p: "parseBasicAuth decode token =
      (case decode b64 of
         None \<Rightarrow> None
       | Some text \<Rightarrow>
           (case split_on CHR '':'' text of
              u # p # rest \<Rightarrow>
                if u = [] \<or> p = [] then None
                else Some \<lparr>username = u, password = p\<rparr>
            | _ \<Rightarrow> None))"
    by (simp add: parseBasicAuth_def tk startsWith_append slice_from_def)
  show ?thesis
  proof (cases "decode b64")
    case None
    then show ?thesis unfolding p using tk by auto
  next
    case (Some decoded)
    show ?thesis
    proof (cases "split_on CHR '':'' decoded")
      case Nil
      then show ?thesis unfolding p using tk Some by auto
    next
      case (Cons u ps)
      show ?thesis
      proof (cases ps)
        case Nil
        then show ?thesis unfolding p using tk Some Cons by auto
      next
        case (Cons q rest)
        then show ?thesis unfolding p using tk Some \<open>split_on CHR '':'' decoded = u # ps\<close>
          by (cases cred) auto
      qed
    qed
  qed
qed

lemma header_is_basic:
  "header_or_empty req = BASIC @ b64 \<longleftrightarrow> authorization req = Some (BASIC @ b64)"
  by (cases "authorization req") (auto simp: header_or_empty_def BASIC_def)

lemma verifyAdmin_parsed:
  "verifyAdmin decode auth req \<longleftrightarrow>
     parseBasicAuth decode (header_or_empty req) = Some \<lparr>username = ''admin'', password = adminPass auth\<rparr>"
proof (cases "parseBasicAuth decode (header_or_empty req)")
  case None
  then show ?thesis by (simp add: verifyAdmin_def)
next
  case (Some cred)
  then show ?thesis by (cases cred) (auto simp: verifyAdmin_def)
qed

lemma verifyAdmin_split:
  "verifyAdmin decode auth req \<longleftrightarrow>
     (\<exists>b64 decoded rest. authorization req = Some (BASIC @ b64) \<and> decode b64 = Some decoded
        \<and> split_on CHR '':'' decoded = ''admin'' # adminPass auth # rest
        \<and> adminPass auth \<noteq> [])"
  unfolding verifyAdmin_parsed parseBasicAuth_Some header_is_basic by simp

text \<open>
  C5.  The claim: \<open>verifyAdmin\<close> is true exactly when the Basic credentials decode to
  \<^verbatim>\<open>admin\<close>, a colon and the configured password.  The code departs from it in both
  directions, because \<open>parseBasicAuth\<close> cuts the decoded text at every colon and reads
  the first two pieces.  With the configured password \<^verbatim>\<open>pass:word\<close>, the request
  whose credentials decode to exactly \<^verbatim>\<open>admin:pass:word\<close> is refused.  With the
  configured password \<^verbatim>\<open>hunter2\<close>, the request whose credentials decode to
  \<^verbatim>\<open>admin:hunter2:x\<close>, which is not the configured pair, is accepted.
\<close>

theorem verifyAdmin_colon_slip:
  "spec_exact_admin_pair fixture_decode \<lparr>secret = ''jwt-secret'', adminPass = ''pass:word''\<rparr>
     \<lparr>authorization = Some ''Basic YWRtaW46cGFzczp3b3Jk''\<rparr>
   \<and> verifyAdmin fixture_decode \<lparr>secret = ''jwt-secret'', adminPass = ''pass:word''\<rparr>
       \<lparr>authorization = Some ''Basic YWRtaW46cGFzczp3b3Jk''\<rparr> = False
   \<and> spec_exact_admin_pair fixture_decode fixture_auth
       \<lparr>authorization = Some ''Basic YWRtaW46aHVudGVyMjp4''\<rparr> = False
   \<and> verifyAdmin fixture_decode fixture_auth
       \<lparr>authorization = Some ''Basic YWRtaW46aHVudGVyMjp4''\<rparr>
   \<and> spec_exact_admin_pair fixture_decode fixture_auth
       \<lparr>authorization = Some ''Basic YWRtaW46aHVudGVyMg==''\<rparr>
   \<and> verifyAdmin fixture_decode fixture_auth
       \<lparr>authorization = Some ''Basic YWRtaW46aHVudGVyMg==''\<rparr>"
  by (simp add: spec_exact_admin_pair_def verifyAdmin_def parseBasicAuth_def header_or_empty_def
      BASIC_def startsWith_def slice_from_def fixture_decode_def fixture_auth_def)

text \<open>
  C9 (as amended).  When the decoded credentials have a second colon, \<open>parseBasicAuth\<close>
  returns as password the text between the first colon and the second, and drops the
  rest, provided that text and the user name are not empty; when either is empty it
  returns nothing.  The password it returns never contains a colon, so \<open>verifyAdmin\<close>
  refuses every request when the configured password contains one, the request with
  exactly the configured pair included.
\<close>

theorem parseBasicAuth_second_colon:
  "(decode b64 = Some (u @ '':'' @ p @ '':'' @ rest)
      \<and> CHR '':'' \<notin> set u \<and> CHR '':'' \<notin> set p
    \<longrightarrow> parseBasicAuth decode (BASIC @ b64)
          = (if u = [] \<or> p = [] then None else Some \<lparr>username = u, password = p\<rparr>))
   \<and> (CHR '':'' \<in> set (adminPass auth) \<longrightarrow> \<not> verifyAdmin decode auth req)"
proof -
  have first: "parseBasicAuth decode (BASIC @ b64)
      = (if u = [] \<or> p = [] then None else Some \<lparr>username = u, password = p\<rparr>)"
    if d: "decode b64 = Some (u @ '':'' @ p @ '':'' @ rest)"
      and "CHR '':'' \<notin> set u" and "CHR '':'' \<notin> set p"
  proof -
    have "split_on CHR '':'' (u @ CHR '':'' # p @ CHR '':'' # rest) = u # p # split_on CHR '':'' rest"
      using that(2,3) by (simp add: split_on_append)
    then have "split_on CHR '':'' (u @ '':'' @ p @ '':'' @ rest) = u # p # split_on CHR '':'' rest"
      by simp
    with d show ?thesis
      by (simp add: parseBasicAuth_def startsWith_append slice_from_def)
  qed
  have second: "\<not> verifyAdmin decode auth req" if colon: "CHR '':'' \<in> set (adminPass auth)"
  proof
    assume "verifyAdmin decode auth req"
    then obtain decoded rest' where "split_on CHR '':'' decoded = ''admin'' # adminPass auth # rest'"
      unfolding verifyAdmin_split by blast
    then have "adminPass auth \<in> set (split_on CHR '':'' decoded)"
      by simp
    then have "CHR '':'' \<notin> set (adminPass auth)"
      by (rule split_on_segments)
    with colon show False by simp
  qed
  from first second show ?thesis by blast
qed

theorem parseBasicAuth_second_colon_witness:
  "parseBasicAuth fixture_decode ''Basic YWRtaW46YTpi'' = Some \<lparr>username = ''admin'', password = ''a''\<rparr>
   \<and> \<not> verifyAdmin fixture_decode \<lparr>secret = ''jwt-secret'', adminPass = ''a:b''\<rparr>
       \<lparr>authorization = Some ''Basic YWRtaW46YTpi''\<rparr>"
proof -
  have d: "fixture_decode ''YWRtaW46YTpi'' = Some (''admin'' @ '':'' @ ''a'' @ '':'' @ ''b'')"
    by (simp add: fixture_decode_def)
  have "parseBasicAuth fixture_decode (BASIC @ ''YWRtaW46YTpi'')
          = Some \<lparr>username = ''admin'', password = ''a''\<rparr>
        \<and> \<not> verifyAdmin fixture_decode \<lparr>secret = ''jwt-secret'', adminPass = ''a:b''\<rparr>
            \<lparr>authorization = Some ''Basic YWRtaW46YTpi''\<rparr>"
    using parseBasicAuth_second_colon [where decode = fixture_decode and ?b64.0 = "''YWRtaW46YTpi''"
        and u = "''admin''" and p = "''a''" and rest = "''b''"
        and auth = "\<lparr>secret = ''jwt-secret'', adminPass = ''a:b''\<rparr>"
        and req = "\<lparr>authorization = Some ''Basic YWRtaW46YTpi''\<rparr>"]
      d
    by simp
  then show ?thesis
    by (simp add: BASIC_def)
qed

text \<open>
  C9 as stated fails: the credentials \<^verbatim>\<open>admin::x\<close> have the password \<^verbatim>\<open>:x\<close>, which
  contains a colon, and \<open>parseBasicAuth\<close> returns nothing instead of the (empty) text
  between the first colon and the second.
\<close>

theorem parseBasicAuth_empty_segment_counterexample:
  "fixture_decode ''YWRtaW46Ong='' = Some ''admin::x''
   \<and> parseBasicAuth fixture_decode ''Basic YWRtaW46Ong='' = None"
  by (simp add: parseBasicAuth_def BASIC_def startsWith_def slice_from_def fixture_decode_def)

section \<open>Properties of the cache\<close>

lemma find_absent: "d \<notin> set (map did table) \<Longrightarrow> find (\<lambda>r. did r = d) table = None"
  by (induction table) auto

lemma find_appended:
  "d \<notin> set (map did table) \<Longrightarrow> find (\<lambda>r. did r = d) (table @ [row]) = (if did row = d then Some row else None)"
  by (induction table) auto

lemma find_updated:
  "d \<in> set (map did table) \<Longrightarrow>
   \<exists>old. find (\<lambda>r. did r = d) table = Some old \<and> did old = d
     \<and> find (\<lambda>r. did r = d) (map (\<lambda>r. if did r = d then r\<lparr>doc := dc, updatedAt := t\<rparr> else r) table)
         = Some (old\<lparr>doc := dc, updatedAt := t\<rparr>)"
  by (induction table) auto

lemma find_after_cacheDid:
  "\<exists>row. find (\<lambda>r. did r = d) (cacheDid d dc t_values t_conflict table) = Some row
     \<and> did row = d \<and> doc row = dc
     \<and> updatedAt row = (if d \<in> set (map did table) then t_conflict else t_values)"
proof (cases "d \<in> set (map did table)")
  case True
  from find_updated [OF True, where dc = dc and t = t_conflict] True show ?thesis
    by (auto simp: cacheDid_def)
next
  case False
  from find_appended [OF False, of "\<lparr>did = d, doc = dc, updatedAt = t_values\<rparr>"] False show ?thesis
    by (simp add: cacheDid_def)
qed

text \<open>
  C6.  A read of an identity that no row of the table carries, as in the empty table,
  returns nothing.  After \<open>cacheDid\<close> for the identity, the read returns the document
  just written and the time \<open>t\<close> it was stamped with, and the flag \<open>expired\<close> is the
  comparison \<open>now > t + ttl\<close> made with the clock and the time-to-live of the read: with
  a non-negative time-to-live it is false at \<open>now = t\<close> and up to \<open>t + ttl\<close>, and true
  for the same row once more than \<open>ttl\<close> has passed.
\<close>

theorem checkCache_expired_at_read:
  assumes "\<bar>t_values\<bar> \<le> 8640000000000000" and "\<bar>t_conflict\<bar> \<le> 8640000000000000"
    and "t = (if d \<in> set (map did table) then t_conflict else t_values)"
  shows "checkCache ttl now d ([] :: 'd did_cache_row list) = None
     \<and> (d \<notin> set (map did (table :: 'd did_cache_row list)) \<longrightarrow> checkCache ttl now d table = None)
     \<and> checkCache ttl now d (cacheDid d dc t_values t_conflict table)
          = Some \<lparr>res_doc = dc, res_updatedAt = Some t, res_did = d, expired = (now > t + ttl)\<rparr>
     \<and> (0 \<le> ttl \<longrightarrow> (\<exists>r. checkCache ttl t d (cacheDid d dc t_values t_conflict table) = Some r \<and> \<not> expired r))
     \<and> (now \<le> t + ttl \<longrightarrow> (\<exists>r. checkCache ttl now d (cacheDid d dc t_values t_conflict table) = Some r \<and> \<not> expired r))
     \<and> (now > t + ttl \<longrightarrow> (\<exists>r. checkCache ttl now d (cacheDid d dc t_values t_conflict table) = Some r
            \<and> res_doc r = dc \<and> res_updatedAt r = Some t \<and> expired r))"
proof -
  have valid: "getTime t = Some t"
    using assms by (simp add: getTime_def)
  have before: "checkCache ttl now d ([] :: 'd did_cache_row list) = None"
    by (simp add: checkCache_def)
  have miss: "checkCache ttl now d table = None" if "d \<notin> set (map did table)"
    using find_absent [OF that] by (simp add: checkCache_def)
  have hit: "checkCache ttl n d (cacheDid d dc t_values t_conflict table)
          = Some \<lparr>res_doc = dc, res_updatedAt = Some t, res_did = d, expired = (n > t + ttl)\<rparr>" for n
  proof -
    obtain row where "find (\<lambda>r. did r = d) (cacheDid d dc t_values t_conflict table) = Some row"
      and "doc row = dc" and "updatedAt row = t"
      using find_after_cacheDid [of d dc t_values t_conflict table] assms(3) by auto
    then show ?thesis
      using valid by (simp add: checkCache_def Let_def)
  qed
  show ?thesis
    using before miss hit [of now] hit [of t] by simp
qed

theorem checkCache_expired_at_read_witness:
  "checkCache 1000 5000 ''did:example:alice'' ([] :: string did_cache_row list) = None
   \<and> checkCache 1000 5000 ''did:example:alice'' (cacheDid ''did:example:alice'' ''doc1'' 5000 5001 [])
       = Some \<lparr>res_doc = ''doc1'', res_updatedAt = Some 5000, res_did = ''did:example:alice'', expired = False\<rparr>
   \<and> checkCache 1000 6001 ''did:example:alice'' (cacheDid ''did:example:alice'' ''doc1'' 5000 5001 [])
       = Some \<lparr>res_doc = ''doc1'', res_updatedAt = Some 5000, res_did = ''did:example:alice'', expired = True\<rparr>"
proof -
  have r1: "\<bar>5000 :: int\<bar> \<le> 8640000000000000" and r2: "\<bar>5001 :: int\<bar> \<le> 8640000000000000"
    by simp_all
  have st: "(5000 :: int) = (if ''did:example:alice'' \<in> set (map did ([] :: string did_cache_row list))
      then 5001 else 5000)"
    by simp
  show ?thesis
    using checkCache_expired_at_read [OF r1 r2 st, where ttl = 1000 and now = 5000 and dc = "''doc1''"]
      checkCache_expired_at_read [OF r1 r2 st, where ttl = 1000 and now = 6001 and dc = "''doc1''"]
    by simp
qed

lemma did_after_cacheDid:
  "map did (cacheDid d dc t_values t_conflict table)
     = (if d \<in> set (map did table) then map did table else map did table @ [d])"
  by (auto simp: cacheDid_def)

lemma filter_updated:
  "distinct (map did table) \<Longrightarrow> d \<in> set (map did table) \<Longrightarrow>
   filter (\<lambda>r. did r = d) (map (\<lambda>r. if did r = d then r\<lparr>doc := dc, updatedAt := t\<rparr> else r) table)
     = [\<lparr>did = d, doc = dc, updatedAt = t\<rparr>]"
proof (induction table)
  case Nil
  then show ?case by simp
next
  case (Cons r rs)
  show ?case
  proof (cases "did r = d")
    case True
    with Cons.prems have "d \<notin> set (map did rs)" by auto
    then have "filter (\<lambda>r. did r = d) (map (\<lambda>r. if did r = d then r\<lparr>doc := dc, updatedAt := t\<rparr> else r) rs) = []"
      by (induction rs) auto
    with True show ?thesis by (cases r) simp
  next
    case False
    with Cons show ?thesis by auto
  qed
qed

text \<open>
  C7.  In a table with at most one row per identity, \<open>cacheDid\<close> leaves at most one row
  per identity, and after two successive calls for the same identity exactly one row
  carries it: the row holding the document of the second call and the time its
  conflict branch read from the clock.
\<close>

theorem cacheDid_last_write_wins:
  assumes "distinct (map did table)"
  shows "distinct (map did (cacheDid d dc t_values t_conflict table))
     \<and> filter (\<lambda>r. did r = d)
          (cacheDid d doc_b t_values_b t_conflict_b (cacheDid d doc_a t_values_a t_conflict_a table))
         = [\<lparr>did = d, doc = doc_b, updatedAt = t_conflict_b\<rparr>]
     \<and> distinct (map did
          (cacheDid d doc_b t_values_b t_conflict_b (cacheDid d doc_a t_values_a t_conflict_a table)))"
proof -
  have keep: "distinct (map did (cacheDid d' dc' a b tb))" if "distinct (map did tb)" for d' dc' a b tb
    using that unfolding did_after_cacheDid by auto
  let ?first = "cacheDid d doc_a t_values_a t_conflict_a table"
  have d1: "distinct (map did ?first)"
    using assms by (rule keep)
  have present: "d \<in> set (map did ?first)"
    unfolding did_after_cacheDid by simp
  have "cacheDid d doc_b t_values_b t_conflict_b ?first
      = map (\<lambda>r. if did r = d then r\<lparr>doc := doc_b, updatedAt := t_conflict_b\<rparr> else r) ?first"
    using present by (simp add: cacheDid_def)
  then have one: "filter (\<lambda>r. did r = d) (cacheDid d doc_b t_values_b t_conflict_b ?first)
      = [\<lparr>did = d, doc = doc_b, updatedAt = t_conflict_b\<rparr>]"
    using filter_updated [OF d1 present] by simp
  from keep [OF assms] one keep [OF d1] show ?thesis by blast
qed

theorem cacheDid_last_write_wins_witness:
  "cacheDid ''did:example:alice'' ''doc2'' 7000 7001
     (cacheDid ''did:example:alice'' ''doc1'' 5000 5001
        [\<lparr>did = ''did:example:bob'', doc = ''doc0'', updatedAt = 100\<rparr>])
   = [\<lparr>did = ''did:example:bob'', doc = ''doc0'', updatedAt = 100\<rparr>,
      \<lparr>did = ''did:example:alice'', doc = ''doc2'', updatedAt = 7001\<rparr>]
   \<and> filter (\<lambda>r. did r = ''did:example:alice'')
       (cacheDid ''did:example:alice'' ''doc2'' 7000 7001
         (cacheDid ''did:example:alice'' ''doc1'' 5000 5001
            [\<lparr>did = ''did:example:bob'', doc = ''doc0'', updatedAt = 100\<rparr>]))
     = [\<lparr>did = ''did:example:alice'', doc = ''doc2'', updatedAt = 7001\<rparr>]"
proof -
  have dist: "distinct (map did [\<lparr>did = ''did:example:bob'', doc = ''doc0'', updatedAt = (100::int)\<rparr>])"
    by simp
  show ?thesis
    using cacheDid_last_write_wins [OF dist, where d = "''did:example:alice''" and doc_a = "''doc1''"
        and doc_b = "''doc2''" and t_values_a = 5000 and t_conflict_a = 5001
        and t_values_b = 7000 and t_conflict_b = 7001]
    by (simp add: cacheDid_def)
qed

section \<open>Service tokens against the federated verifier\<close>

lemma quoted_web_did: \<open>json_quote ''did:web:example.com'' = ''"did:web:example.com"''\<close>
  by code_simp

lemma payload_has_dot:
  "count_list (jsonToB64Url [(''iss'', JString ''did:web:example.com''), (''exp'', JNumber e)]) CHR ''.'' \<ge> 1"
  by (simp add: jsonToB64Url_def JSON_stringify_def quoted_web_did)

text \<open>
  C10.  The service token issued for the identity \<^verbatim>\<open>did:web:example.com\<close> has at least
  four segments between dots, whatever the key pair, the clock and the encoding of the
  signature are, because the payload segment is the JSON text itself; the federated
  verifier rejects it as \<open>BadJwt\<close> before it parses any payload.
\<close>

theorem createServiceJwt_dotted_did_rejected:
  "verifyJwt c now' (createServiceJwt to_base64url now ''did:web:example.com'' kp)
     = Inl (AuthRequiredError BadJwt)"
proof -
  let ?token = "createServiceJwt to_base64url now ''did:web:example.com'' kp"
  have "count_list ?token CHR ''.'' \<ge> 3"
    using payload_has_dot [of "(now + MINUTE) div 1000"]
    by (simp add: createServiceJwt_def Let_def)
  then have "length (split_on CHR ''.'' ?token) \<noteq> 3"
    by (simp add: length_split_on)
  then show ?thesis
    by (simp add: verifyJwt_def Let_def)
qed

lemma service_token_text:
  \<open>createServiceJwt (\<lambda>s. s) 1700000000000 ''did:web:example.com'' \<lparr>jwtAlg = ''ES256K'', sign = (\<lambda>m. ''c2ln'')\<rparr>
     = ''{"typ":"JWT","alg":"ES256K"}.{"iss":"did:web:example.com","exp":1700000060}.c2ln''\<close>
  by code_simp

lemma service_token_segments:
  \<open>split_on CHR ''.'' (createServiceJwt (\<lambda>s. s) 1700000000000 ''did:web:example.com''
       \<lparr>jwtAlg = ''ES256K'', sign = (\<lambda>m. ''c2ln'')\<rparr>)
     = [''{"typ":"JWT","alg":"ES256K"}'', ''{"iss":"did:web:example'', ''com","exp":1700000060}'', ''c2ln'']\<close>
  unfolding service_token_text by simp

end
